theory Spec2Isabelle
  imports Main "HOL-Library.Sublist"
begin

section \<open>JavaScript values used by the two components\<close>

text \<open>
  An optional field (\<^verbatim>\<open>database?: string\<close>) is an \<open>option\<close>: \<open>None\<close> is JavaScript's
  \<^verbatim>\<open>undefined\<close>.  A condition \<^verbatim>\<open>s ? a : b\<close> on a string tests its truthiness: the
  empty string and \<^verbatim>\<open>undefined\<close> are falsy, every other string is truthy.
\<close>

definition truthy_string :: "string \<Rightarrow> bool" where
  "truthy_string s = (s \<noteq> [])"

definition truthy_opt_string :: "string option \<Rightarrow> bool" where
  "truthy_opt_string v = (case v of None \<Rightarrow> False | Some s \<Rightarrow> truthy_string s)"

text \<open>
  String concatenation \<^verbatim>\<open>'...' + v\<close> converts \<^verbatim>\<open>v\<close> to a string first; \<^verbatim>\<open>undefined\<close>
  becomes the nine characters \<^verbatim>\<open>undefined\<close>.
\<close>

definition to_string :: "string option \<Rightarrow> string" where
  "to_string v = (case v of None \<Rightarrow> ''undefined'' | Some s \<Rightarrow> s)"

section \<open>External tool launcher: the command arguments\<close>

text \<open>
  \<^verbatim>\<open>interface LaunchSsmsDialogParams\<close>: \<^verbatim>\<open>action\<close> and \<^verbatim>\<open>server\<close> are required strings,
  the other fields are optional.
\<close>

record LaunchSsmsDialogParams =
  action :: string
  server :: string
  database :: "string option"
  user :: "string option"
  password :: "string option"
  useAad :: "bool option"
  urn :: "string option"

text \<open>The six \<^verbatim>\<open>${...}\<close> substitutions of the template literal, in source order.\<close>

definition action_segment :: "LaunchSsmsDialogParams \<Rightarrow> string" where
  \<open>action_segment p =
     (if truthy_string (action p) then ''-a "'' @ action p @ ''"'' else '''')\<close>

definition server_segment :: "LaunchSsmsDialogParams \<Rightarrow> string" where
  \<open>server_segment p =
     (if truthy_string (server p) then ''-S "'' @ server p @ ''"'' else '''')\<close>

definition database_segment :: "LaunchSsmsDialogParams \<Rightarrow> string" where
  \<open>database_segment p =
     (if truthy_opt_string (database p) then ''-D "'' @ to_string (database p) @ ''"'' else '''')\<close>

definition user_segment :: "LaunchSsmsDialogParams \<Rightarrow> string" where
  \<open>user_segment p =
     (if useAad p \<noteq> Some True then ''-U "'' @ to_string (user p) @ ''"'' else '''')\<close>

definition aad_segment :: "LaunchSsmsDialogParams \<Rightarrow> string" where
  \<open>aad_segment p = (if useAad p = Some True then ''-G'' else '''')\<close>

definition urn_segment :: "LaunchSsmsDialogParams \<Rightarrow> string" where
  \<open>urn_segment p =
     (if truthy_opt_string (urn p) then ''-u "'' @ to_string (urn p) @ ''"'' else '''')\<close>

text \<open>
  The template literal spans six source lines.  A backslash before the line break removes
  the break, the four spaces that indent each continuation line stay in the string, and so
  does the space written before each backslash from the second line on: four spaces follow
  the action segment and five follow each of the next four segments.
\<close>

definition buildSsmsMinCommandArgs :: "LaunchSsmsDialogParams \<Rightarrow> string" where
  \<open>buildSsmsMinCommandArgs p =
     action_segment p @ ''    '' @
     server_segment p @ '' '' @ ''    '' @
     database_segment p @ '' '' @ ''    '' @
     user_segment p @ '' '' @ ''    '' @
     aad_segment p @ '' '' @ ''    '' @
     urn_segment p\<close>

section \<open>External tool launcher: launching the dialog\<close>

text \<open>
  Modelled from the spec: the declaration of \<^verbatim>\<open>sqlops.IConnectionProfile\<close> is not part of
  the file.  The launcher reads five attributes of the active connection profile (server
  name, database name, user name, password, authentication type), of which only the server
  name is always there.  The profile's \<^verbatim>\<open>password\<close> is the field \<open>profilePassword\<close> here,
  apart from the field \<open>password\<close> of the parameter object.
\<close>

record IConnectionProfile =
  serverName :: string
  databaseName :: "string option"
  userName :: "string option"
  profilePassword :: "string option"
  authenticationType :: string

text \<open>
  What the launcher does to its collaborators, in the order of the calls.  A telemetry event
  is its name and its properties; \<^verbatim>\<open>shelljs.exec\<close> gets the command line and a callback
  that runs when the process has exited, with the exit code and the captured standard
  error; \<^verbatim>\<open>proc.stdin.end(data)\<close> writes \<^verbatim>\<open>data\<close> to the input stream of the process and
  closes the stream.  A message passed through \<^verbatim>\<open>localize\<close> is kept as its key and its
  default text.
\<close>

datatype telemetry_value = TString string | TNumber int

datatype telemetry = Telemetry (eventName: string) (properties: "(string \<times> telemetry_value) list")

datatype effect =
    RegisterCommand string
  | ShowErrorMessage string string
  | SendTelemetryEvent telemetry
  | Exec string "int \<Rightarrow> string \<Rightarrow> telemetry"
  | StdinEnd string

definition serverPropertiesAction :: string where
  "serverPropertiesAction = ''sqla:Properties@Microsoft.SqlServer.Management.Smo.Server''"

text \<open>The object literal of lines 251 to 258; the \<^verbatim>\<open>action\<close> argument is not read here.\<close>

definition launchParams :: "IConnectionProfile \<Rightarrow> string option \<Rightarrow> LaunchSsmsDialogParams" where
  "launchParams connectionProfile urn' =
     \<lparr> action = ''sqla:Properties@Microsoft.SqlServer.Management.Smo.Server'',
       server = serverName connectionProfile,
       database = databaseName connectionProfile,
       user = userName connectionProfile,
       password = profilePassword connectionProfile,
       useAad = Some (authenticationType connectionProfile = ''AzureMFA''),
       urn = urn' \<rparr>"

text \<open>The callback handed to \<^verbatim>\<open>shelljs.exec\<close>.\<close>

definition launchResult :: "LaunchSsmsDialogParams \<Rightarrow> int \<Rightarrow> string \<Rightarrow> telemetry" where
  "launchResult params code stderr =
     Telemetry ''LaunchSsmsDialogResult''
       [(''action'', TString (action params)),
        (''returnCode'', TNumber code),
        (''error'', TString stderr)]"

text \<open>
  \<^verbatim>\<open>launchSsmsDialog\<close>.  The first argument is the module variable \<^verbatim>\<open>exePath\<close>, which is
  \<^verbatim>\<open>undefined\<close> until activation has stored a path in it.
\<close>

definition launchSsmsDialog ::
  "string option \<Rightarrow> string \<Rightarrow> IConnectionProfile \<Rightarrow> string option \<Rightarrow> effect list" where
  \<open>launchSsmsDialog exePath action' connectionProfile urn' =
     (if \<not> truthy_opt_string exePath then
        [ShowErrorMessage ''adminToolExtWin.noExeError'' ''Unable to find SsmsMin.exe.'']
      else
        let params = launchParams connectionProfile urn';
            args = buildSsmsMinCommandArgs params
        in [SendTelemetryEvent (Telemetry ''LaunchSsmsDialog'' [(''action'', TString action')]),
            Exec (''"'' @ to_string exePath @ ''" '' @ args) (launchResult params)]
           @ (if useAad params \<noteq> Some True
              then [StdinEnd (if truthy_opt_string (password params)
                              then to_string (password params) else '''')]
              else []))\<close>

text \<open>
  The command handler.  Its argument is optional; reading \<^verbatim>\<open>connectionProfile\<close> of
  \<^verbatim>\<open>undefined\<close> throws a TypeError.
\<close>

datatype js_error = TypeError

definition handleLaunchSsmsServerPropertiesDialogCommand ::
  "string option \<Rightarrow> IConnectionProfile option option \<Rightarrow> js_error + effect list" where
  \<open>handleLaunchSsmsServerPropertiesDialogCommand exePath connectionContext =
     (case connectionContext of
        None \<Rightarrow> Inl TypeError
      | Some None \<Rightarrow> Inr []
      | Some (Some connectionProfile) \<Rightarrow>
          Inr (launchSsmsDialog exePath ''sqla:Properties@Microsoft.SqlServer.Management.Smo.Server''
                 connectionProfile
                 (Some (''Server[@Name='' @ [CHR 0x27] @ serverName connectionProfile
                        @ [CHR 0x27] @ '']''))))\<close>

section \<open>External tool launcher: activation\<close>

text \<open>
  A setting read with \<^verbatim>\<open>utils.getConfiguration('http').get(...)\<close> is whatever the settings
  file holds, or \<^verbatim>\<open>undefined\<close>.  Numbers are kept as integers: of the other numbers only
  NaN is falsy, and a settings file cannot hold it.
\<close>

datatype json =
    JUndefined
  | JNull
  | JBoolean bool
  | JNumber int
  | JString string
  | JArray "json list"
  | JObject "(string \<times> json) list"

fun truthy :: "json \<Rightarrow> bool" where
  "truthy JUndefined = False"
| "truthy JNull = False"
| "truthy (JBoolean b) = b"
| "truthy (JNumber n) = (n \<noteq> 0)"
| "truthy (JString s) = (s \<noteq> [])"
| "truthy (JArray xs) = True"
| "truthy (JObject kvs) = True"

text \<open>\<^verbatim>\<open>a || b\<close> is \<^verbatim>\<open>a\<close> when \<^verbatim>\<open>a\<close> is truthy and \<^verbatim>\<open>b\<close> otherwise.\<close>

definition js_or :: "json \<Rightarrow> json \<Rightarrow> json" where
  "js_or a b = (if truthy a then a else b)"

text \<open>
  The download configuration: the three fields activation assigns; the other fields of
  \<^verbatim>\<open>config.json\<close> travel in the extension part of the record.
\<close>

record IConfig =
  installDirectory :: string
  proxy :: json
  strictSSL :: json

datatype 'a settled = Fulfilled 'a | Rejected

text \<open>
  What activation reads from its surroundings: the platform, the extension's path, the
  contents of \<^verbatim>\<open>config.json\<close>, \<^verbatim>\<open>path.join\<close>, the two settings of section \<^verbatim>\<open>http\<close>, the
  two readings of the clock, and how the two promises of the downloader (built from the
  configuration) settle.
\<close>

record 'c activation_env =
  platform :: string
  extensionPath :: string
  baseConfig :: "'c IConfig_scheme"
  pathJoin :: "string \<Rightarrow> string \<Rightarrow> string"
  httpProxy :: json
  httpProxyStrictSSL :: json
  installationStart :: int
  installationComplete :: int
  getOrDownloadServer :: "'c IConfig_scheme \<Rightarrow> string settled"
  getServerPath :: "'c IConfig_scheme \<Rightarrow> string option settled"

text \<open>Lines 192 to 195.\<close>

definition downloadConfig :: "'c activation_env \<Rightarrow> 'c IConfig_scheme" where
  "downloadConfig env =
     (let config = baseConfig env;
          config = config\<lparr>installDirectory := pathJoin env (extensionPath env) (installDirectory config)\<rparr>;
          config = config\<lparr>proxy := httpProxy env\<rparr>;
          config = config\<lparr>strictSSL := js_or (httpProxyStrictSSL env) (JBoolean True)\<rparr>
      in config)"

text \<open>
  \<^verbatim>\<open>String(n)\<close> of an integer: its decimal digits, with a minus sign when negative
  (clock readings are far below the size where JavaScript switches to exponents).
\<close>

function string_of_nat :: "nat \<Rightarrow> string" where
  "string_of_nat n =
     (if n < 10 then [''0123456789'' ! n]
      else string_of_nat (n div 10) @ [''0123456789'' ! (n mod 10)])"
  by pat_completeness auto
termination
  by (relation "measure (\<lambda>n. n)") auto

declare string_of_nat.simps [simp del]

definition js_String :: "int \<Rightarrow> string" where
  "js_String i = (if i < 0 then ''-'' @ string_of_nat (nat (- i)) else string_of_nat (nat i))"

text \<open>
  The promise \<^verbatim>\<open>activate\<close> returns ends up resolved, rejected, or pending for ever; on
  another platform \<^verbatim>\<open>activate\<close> returns no promise at all.
\<close>

datatype promise_state = Resolved | RejectedPromise | Pending

record activation =
  effects :: "effect list"
  exePath_after :: "string option"
  returned :: "promise_state option"

text \<open>\<^verbatim>\<open>activate\<close>, from the value of \<^verbatim>\<open>exePath\<close> before the call.\<close>

definition activate :: "'c activation_env \<Rightarrow> string option \<Rightarrow> activation" where
  "activate env exePath =
     (let registered = [RegisterCommand ''adminToolExtWin.launchSsmsServerPropertiesDialog''] in
      if platform env = ''win32'' then
        let config = downloadConfig env in
        (case getOrDownloadServer env config of
           Fulfilled e \<Rightarrow>
             let started = SendTelemetryEvent (Telemetry ''startup/ExtensionStarted''
                   [(''installationTime'',
                       TString (js_String (installationComplete env - installationStart env))),
                    (''beginningTimestamp'', TString (js_String (installationStart env)))])
             in (case getServerPath env config of
                   Fulfilled path \<Rightarrow>
                     \<lparr> effects = registered @ [started],
                       exePath_after = (if truthy_opt_string path then path else exePath),
                       returned = Some Resolved \<rparr>
                 | Rejected \<Rightarrow>
                     \<lparr> effects = registered @ [started],
                       exePath_after = exePath,
                       returned = Some Pending \<rparr>)
         | Rejected \<Rightarrow>
             \<lparr> effects = registered @
                 [SendTelemetryEvent (Telemetry ''startup/ExtensionInitializationFailed'' [])],
               exePath_after = exePath,
               returned = Some Resolved \<rparr>)
      else
        \<lparr> effects = registered @
            [ShowErrorMessage ''adminToolExtWin.onlySupportedOnWindows''
               ''The Admin Tool Extension is only supported on Windows platforms.''],
          exePath_after = exePath,
          returned = None \<rparr>)"

section \<open>Formatter picker\<close>

text \<open>
  Modelled from the spec: the classes \<^verbatim>\<open>ExtensionIdentifier\<close>, \<^verbatim>\<open>Range\<close> and the text model
  are imported, not part of the file.  An extension identifier has a \<^verbatim>\<open>value\<close> (the field
  \<open>idValue\<close>) and the key \<^verbatim>\<open>ExtensionIdentifier.toKey\<close> gives for it.  A range is its four coordinates and is empty
  (collapsed) when its start and its end coincide.  A text model is its lines, numbered from
  1, and the maximal column of a line of length \<open>n\<close> is \<open>n + 1\<close>; a line number outside
  the model has no maximal column, and asking for it throws.  The formatters registered for
  a model (what \<^verbatim>\<open>getRealAndSyntheticDocumentFormattersOrdered\<close> and
  \<^verbatim>\<open>DocumentRangeFormattingEditProviderRegistry.ordered\<close> return for it) are kept with the
  model.
\<close>

record ExtensionIdentifier =
  idValue :: string
  idKey :: string

definition toKey :: "ExtensionIdentifier \<Rightarrow> string" where
  "toKey e = idKey e"

record Range =
  startLineNumber :: nat
  startColumn :: nat
  endLineNumber :: nat
  endColumn :: nat

definition isEmpty :: "Range \<Rightarrow> bool" where
  "isEmpty r = (startLineNumber r = endLineNumber r \<and> startColumn r = endColumn r)"

text \<open>
  A formatting provider: the two fields the picker reads; what the provider does when it
  formats travels in the extension part of the record.
\<close>

record FormattingProvider =
  displayName :: "string option"
  extensionId :: "ExtensionIdentifier option"

record 'm ITextModel =
  textLines :: "string list"
  documentFormatters :: "'m FormattingProvider_scheme list"
  rangeFormatters :: "'m FormattingProvider_scheme list"

definition getLineMaxColumn :: "'m ITextModel \<Rightarrow> nat \<Rightarrow> js_error + nat" where
  "getLineMaxColumn m lineNumber =
     (if 1 \<le> lineNumber \<and> lineNumber \<le> length (textLines m)
      then Inr (length (textLines m ! (lineNumber - 1)) + 1)
      else Inl TypeError)"

record 'm ICodeEditor =
  model :: "'m ITextModel option"
  selection :: Range

record IQuickInputButton =
  tooltip :: "string \<times> string"
  iconClass :: string

record IIndexedPick =
  index :: nat
  label :: string
  buttons :: "IQuickInputButton list"

definition openExtensionAction :: IQuickInputButton where
  "openExtensionAction =
     \<lparr> tooltip = (''show.ext'', ''Show extension...''), iconClass = ''format-show-extension'' \<rparr>"

text \<open>\<^verbatim>\<open>xs[i]\<close> on a JavaScript array: \<^verbatim>\<open>undefined\<close> outside the array.\<close>

definition at_index :: "'a list \<Rightarrow> nat \<Rightarrow> 'a option" where
  "at_index xs i = (if i < length xs then Some (xs ! i) else None)"

record formatterpick =
  mode :: string
  extensions :: "string list"
  pick :: string

text \<open>
  What a run of a picker command does to its collaborators: it opens the quick pick (with
  the entries, the placeholder and the handler of the entries' button, which gives the query
  for the extensions view or throws), invokes a formatter, logs a telemetry event.
\<close>

datatype 'm picker_effect =
    QuickPick "IIndexedPick list" "string \<times> string" "IIndexedPick \<Rightarrow> js_error + string"
  | FormatDocumentWithProvider "'m FormattingProvider_scheme option"
  | FormatDocumentRangeWithProvider "'m FormattingProvider_scheme option" Range
  | PublicLog string formatterpick

definition extKey :: "'m FormattingProvider_scheme \<Rightarrow> string" where
  "extKey obj = (case extensionId obj of Some e \<Rightarrow> toKey e | None \<Rightarrow> ''unknown'')"

definition logFormatterTelemetry ::
  "string \<Rightarrow> 'm FormattingProvider_scheme list \<Rightarrow> 'm FormattingProvider_scheme option
     \<Rightarrow> 'm picker_effect" where
  "logFormatterTelemetry mode' options pick' =
     PublicLog ''formatterpick''
       \<lparr> mode = mode',
         extensions = map extKey options,
         pick = (case pick' of Some p \<Rightarrow> extKey p | None \<Rightarrow> ''none'') \<rparr>"

text \<open>\<^verbatim>\<open>provider.map((provider, index) => ...)\<close>, the same in both commands.\<close>

definition picksOf :: "'m FormattingProvider_scheme list \<Rightarrow> IIndexedPick list" where
  "picksOf provider =
     map (\<lambda>(index', provider').
            \<lparr> index = index',
              label = (if truthy_opt_string (displayName provider')
                       then to_string (displayName provider') else ''''),
              buttons = [openExtensionAction] \<rparr>)
         (enumerate 0 provider)"

text \<open>
  \<^verbatim>\<open>onDidTriggerItemButton\<close>: destructuring \<^verbatim>\<open>provider[e.item.index]\<close> throws when there is
  no such provider, and so does reading \<^verbatim>\<open>value\<close> of a missing identifier.
\<close>

definition onDidTriggerItemButton ::
  "'m FormattingProvider_scheme list \<Rightarrow> IIndexedPick \<Rightarrow> js_error + string" where
  "onDidTriggerItemButton provider item =
     (case at_index provider (index item) of
        None \<Rightarrow> Inl TypeError
      | Some p \<Rightarrow>
          (case extensionId p of
             None \<Rightarrow> Inl TypeError
           | Some e \<Rightarrow> Inr (''@id:'' @ idValue e)))"

text \<open>
  A run of a command: what it did, in order, and whether its promise is resolved or
  rejected.  The answer of the quick pick (an entry, or nothing when the user cancels) and
  the way the awaited formatting call settles are given.
\<close>

record 'm run =
  trace :: "'m picker_effect list"
  settled :: promise_state

definition FormatDocumentMultipleAction_run ::
  "'m ICodeEditor \<Rightarrow> IIndexedPick option \<Rightarrow> unit settled \<Rightarrow> 'm run" where
  "FormatDocumentMultipleAction_run editor picked formatting =
     (case model editor of
        None \<Rightarrow> \<lparr> trace = [], settled = Resolved \<rparr>
      | Some model' \<Rightarrow>
          let provider = documentFormatters model';
              picks = picksOf provider;
              asked = QuickPick picks (''format.placeHolder'', ''Select a formatter'')
                        (onDidTriggerItemButton provider)
          in (case picked of
                None \<Rightarrow>
                  \<lparr> trace = [asked, logFormatterTelemetry ''document'' provider None],
                    settled = Resolved \<rparr>
              | Some pick' \<Rightarrow>
                  let chosen = at_index provider (index pick');
                      invoked = FormatDocumentWithProvider chosen
                  in (case formatting of
                        Rejected \<Rightarrow> \<lparr> trace = [asked, invoked], settled = RejectedPromise \<rparr>
                      | Fulfilled u \<Rightarrow>
                          \<lparr> trace = [asked, invoked,
                                     logFormatterTelemetry ''document'' provider chosen],
                            settled = Resolved \<rparr>)))"

text \<open>Lines 126 to 129: an empty selection becomes the whole line.\<close>

definition targetRange :: "'m ITextModel \<Rightarrow> Range \<Rightarrow> js_error + Range" where
  "targetRange model' range' =
     (if isEmpty range' then
        (case getLineMaxColumn model' (startLineNumber range') of
           Inl err \<Rightarrow> Inl err
         | Inr maxColumn \<Rightarrow>
             Inr \<lparr> startLineNumber = startLineNumber range', startColumn = 1,
                   endLineNumber = startLineNumber range', endColumn = maxColumn \<rparr>)
      else Inr range')"

definition FormatSelectionMultipleAction_run ::
  "'m ICodeEditor \<Rightarrow> IIndexedPick option \<Rightarrow> unit settled \<Rightarrow> 'm run" where
  "FormatSelectionMultipleAction_run editor picked formatting =
     (case model editor of
        None \<Rightarrow> \<lparr> trace = [], settled = Resolved \<rparr>
      | Some model' \<Rightarrow>
          (case targetRange model' (selection editor) of
             Inl err \<Rightarrow> \<lparr> trace = [], settled = RejectedPromise \<rparr>
           | Inr range' \<Rightarrow>
               let provider = rangeFormatters model';
                   picks = picksOf provider;
                   asked = QuickPick picks (''format.placeHolder'', ''Select a formatter'')
                             (onDidTriggerItemButton provider)
               in (case picked of
                     None \<Rightarrow>
                       \<lparr> trace = [asked, logFormatterTelemetry ''range'' provider None],
                         settled = Resolved \<rparr>
                   | Some pick' \<Rightarrow>
                       let chosen = at_index provider (index pick');
                           invoked = FormatDocumentRangeWithProvider chosen range'
                       in (case formatting of
                             Rejected \<Rightarrow>
                               \<lparr> trace = [asked, invoked], settled = RejectedPromise \<rparr>
                           | Fulfilled u \<Rightarrow>
                               \<lparr> trace = [asked, invoked,
                                          logFormatterTelemetry ''range'' provider chosen],
                                 settled = Resolved \<rparr>))))"

section \<open>Properties of the argument string: what is stated, and the inputs of the examples\<close>

text \<open>
  A string contains a flag when the flag's text is a contiguous part of it (\<open>sublist\<close>).
  The values a parameter object puts between quotes are free of flags when none of them
  contains the text of \<^verbatim>\<open>-G\<close> or of \<^verbatim>\<open>-U\<close>.
\<close>

definition free_of_flags :: "string \<Rightarrow> bool" where
  "free_of_flags v = (\<not> sublist ''-G'' v \<and> \<not> sublist ''-U'' v)"

definition values_free_of_flags :: "LaunchSsmsDialogParams \<Rightarrow> bool" where
  "values_free_of_flags p =
     (free_of_flags (action p) \<and> free_of_flags (server p) \<and>
      free_of_flags (to_string (database p)) \<and> free_of_flags (to_string (user p)) \<and>
      free_of_flags (to_string (urn p)))"

definition aad_params :: LaunchSsmsDialogParams where
  \<open>aad_params =
     \<lparr> action = ''X'', server = ''S'', database = None, user = None,
       password = None, useAad = Some True, urn = None \<rparr>\<close>

definition login_params :: LaunchSsmsDialogParams where
  \<open>login_params =
     \<lparr> action = ''X'', server = ''S'', database = None, user = Some ''U'',
       password = None, useAad = Some False, urn = None \<rparr>\<close>

text \<open>A server name that closes its own quotes and goes on with a flag.\<close>

definition quoted_flag :: LaunchSsmsDialogParams where
  \<open>quoted_flag =
     \<lparr> action = ''X'', server = ''S" -G "'', database = None, user = Some ''U'',
       password = None, useAad = Some False, urn = None \<rparr>\<close>

text \<open>Only the two required fields.\<close>

definition bare_params :: LaunchSsmsDialogParams where
  \<open>bare_params =
     \<lparr> action = ''X'', server = ''S'', database = None, user = None,
       password = None, useAad = None, urn = None \<rparr>\<close>

definition login_profile :: IConnectionProfile where
  "login_profile =
     \<lparr> serverName = ''srv'', databaseName = Some ''db'', userName = Some ''sa'',
       profilePassword = Some ''pw'', authenticationType = ''SqlLogin'' \<rparr>"

definition aad_profile :: IConnectionProfile where
  "aad_profile =
     \<lparr> serverName = ''srv'', databaseName = None, userName = Some ''me'',
       profilePassword = None, authenticationType = ''AzureMFA'' \<rparr>"

definition failing_download :: "unit activation_env" where
  "failing_download =
     \<lparr> platform = ''win32'', extensionPath = ''C:/ext'',
       baseConfig = \<lparr> installDirectory = ''ssmsmin'', proxy = JUndefined, strictSSL = JUndefined \<rparr>,
       pathJoin = (\<lambda>a b. a @ ''/'' @ b),
       httpProxy = JUndefined, httpProxyStrictSSL = JBoolean False,
       installationStart = 100, installationComplete = 250,
       getOrDownloadServer = (\<lambda>config. Rejected),
       getServerPath = (\<lambda>config. Fulfilled (Some ''C:/ext/ssmsmin/SsmsMin.exe'')) \<rparr>"

definition two_formatters :: "unit ITextModel" where
  "two_formatters =
     \<lparr> textLines = [''abc'', ''hello''],
       documentFormatters =
         [\<lparr> displayName = Some ''A'', extensionId = Some \<lparr> idValue = ''Pub.A'', idKey = ''pub.a'' \<rparr> \<rparr>,
          \<lparr> displayName = None, extensionId = None \<rparr>],
       rangeFormatters =
         [\<lparr> displayName = Some ''A'', extensionId = Some \<lparr> idValue = ''Pub.A'', idKey = ''pub.a'' \<rparr> \<rparr>,
          \<lparr> displayName = Some ''B'', extensionId = None \<rparr>] \<rparr>"

text \<open>A collapsed selection in the second line, and a selection over both lines.\<close>

definition cursor_editor :: "unit ICodeEditor" where
  "cursor_editor =
     \<lparr> model = Some two_formatters,
       selection = \<lparr> startLineNumber = 2, startColumn = 3, endLineNumber = 2, endColumn = 3 \<rparr> \<rparr>"

definition selection_editor :: "unit ICodeEditor" where
  "selection_editor =
     \<lparr> model = Some two_formatters,
       selection = \<lparr> startLineNumber = 1, startColumn = 2, endLineNumber = 2, endColumn = 4 \<rparr> \<rparr>"

definition first_pick :: IIndexedPick where
  "first_pick = \<lparr> index = 0, label = ''A'', buttons = [openExtensionAction] \<rparr>"

definition second_pick :: IIndexedPick where
  "second_pick = \<lparr> index = 1, label = ''B'', buttons = [openExtensionAction] \<rparr>"

section \<open>The flags of the argument string\<close>

text \<open>Where a text of two characters can sit in a concatenation.\<close>

lemma sublist2_append:
  "sublist [a, b] (xs @ ys) \<longleftrightarrow>
     sublist [a, b] xs \<or> sublist [a, b] ys \<or> (xs \<noteq> [] \<and> last xs = a \<and> ys \<noteq> [] \<and> hd ys = b)"
proof -
  have split2: "(\<exists>xs1 xs2. [a, b] = xs1 @ xs2 \<and> suffix xs1 xs \<and> prefix xs2 ys) \<longleftrightarrow>
        prefix [a, b] ys \<or> suffix [a, b] xs \<or> (suffix [a] xs \<and> prefix [b] ys)"
    (is "?L \<longleftrightarrow> ?R")
  proof
    assume ?L
    then obtain xs1 xs2 where e: "[a, b] = xs1 @ xs2" and s: "suffix xs1 xs" and p: "prefix xs2 ys"
      by blast
    from e have "xs1 = [] \<and> xs2 = [a, b] \<or> xs1 = [a] \<and> xs2 = [b] \<or> xs1 = [a, b] \<and> xs2 = []"
      by (cases xs1; cases "tl xs1") (auto simp: Cons_eq_append_conv)
    with s p show ?R by auto
  next
    assume ?R
    then consider "prefix [a, b] ys" | "suffix [a, b] xs" | "suffix [a] xs" "prefix [b] ys"
      by blast
    then show ?L
    proof cases
      case 1
      then have "[a, b] = [] @ [a, b] \<and> suffix [] xs \<and> prefix [a, b] ys" by simp
      then show ?thesis by blast
    next
      case 2
      then have "[a, b] = [a, b] @ [] \<and> suffix [a, b] xs \<and> prefix [] ys" by simp
      then show ?thesis by blast
    next
      case 3
      then have "[a, b] = [a] @ [b] \<and> suffix [a] xs \<and> prefix [b] ys" by simp
      then show ?thesis by blast
    qed
  qed
  have one_suffix: "suffix [a] xs \<longleftrightarrow> xs \<noteq> [] \<and> last xs = a"
    by (cases xs rule: rev_cases) (auto simp: suffix_def)
  have one_prefix: "prefix [b] ys \<longleftrightarrow> ys \<noteq> [] \<and> hd ys = b"
    by (cases ys) auto
  have "prefix [a, b] ys \<Longrightarrow> sublist [a, b] ys" by (rule prefix_imp_sublist)
  moreover have "suffix [a, b] xs \<Longrightarrow> sublist [a, b] xs" by (rule suffix_imp_sublist)
  ultimately show ?thesis
    unfolding sublist_append split2 one_suffix one_prefix by blast
qed

lemma sublist2_Cons:
  "sublist [a, b] (x # xs) \<longleftrightarrow> (x = a \<and> xs \<noteq> [] \<and> hd xs = b) \<or> sublist [a, b] xs"
  using sublist2_append [of a b "[x]" xs] by (auto simp: sublist_code)

lemmas segment_defs =
  action_segment_def server_segment_def database_segment_def
  user_segment_def aad_segment_def urn_segment_def

lemma aad_params_args:
  \<open>buildSsmsMinCommandArgs aad_params = ''-a "X"    -S "S"               -G     ''\<close>
  by (simp add: aad_params_def buildSsmsMinCommandArgs_def segment_defs
      truthy_string_def truthy_opt_string_def to_string_def)

lemma login_params_args:
  \<open>buildSsmsMinCommandArgs login_params = ''-a "X"    -S "S"          -U "U"          ''\<close>
  by (simp add: login_params_def buildSsmsMinCommandArgs_def segment_defs
      truthy_string_def truthy_opt_string_def to_string_def)

lemma aad_params_clean: "values_free_of_flags aad_params"
  by (simp add: values_free_of_flags_def free_of_flags_def aad_params_def to_string_def
      sublist2_Cons)

lemma login_params_clean: "values_free_of_flags login_params"
  by (simp add: values_free_of_flags_def free_of_flags_def login_params_def to_string_def
      sublist2_Cons)

text \<open>
  C1, as stated, fails: the values are pasted between quotes as they are.  With the server
  name \<^verbatim>\<open>S" -G "\<close>, not using AAD and user \<^verbatim>\<open>U\<close>, the string holds both \<^verbatim>\<open>-G\<close> and
  \<^verbatim>\<open>-U\<close>.
\<close>

theorem aad_flag_exclusive_counterexample:
  \<open>useAad quoted_flag \<noteq> Some True \<and>
   sublist ''-G'' (buildSsmsMinCommandArgs quoted_flag) \<and>
   sublist ''-U'' (buildSsmsMinCommandArgs quoted_flag)\<close>
  by (simp add: quoted_flag_def buildSsmsMinCommandArgs_def segment_defs
      truthy_string_def truthy_opt_string_def to_string_def sublist2_Cons)

text \<open>
  C1, amended: for every parameter object whose action, server, database, user and urn
  contain neither \<^verbatim>\<open>-G\<close> nor \<^verbatim>\<open>-U\<close>, the string \<^verbatim>\<open>buildSsmsMinCommandArgs\<close> returns
  contains \<^verbatim>\<open>-G\<close> if and only if \<^verbatim>\<open>useAad\<close> is true, contains \<^verbatim>\<open>-U\<close> if and only if
  \<^verbatim>\<open>useAad\<close> is not true, and so never contains both.
\<close>

theorem aad_flag_exclusive:
  assumes "values_free_of_flags p"
  shows \<open>(sublist ''-G'' (buildSsmsMinCommandArgs p) \<longleftrightarrow> useAad p = Some True) \<and>
         (sublist ''-U'' (buildSsmsMinCommandArgs p) \<longleftrightarrow> useAad p \<noteq> Some True) \<and>
         \<not> (sublist ''-U'' (buildSsmsMinCommandArgs p) \<and>
            sublist ''-G'' (buildSsmsMinCommandArgs p))\<close>
proof -
  have g: \<open>sublist ''-G'' (buildSsmsMinCommandArgs p) \<longleftrightarrow> useAad p = Some True\<close>
    using assms
    by (simp add: values_free_of_flags_def free_of_flags_def buildSsmsMinCommandArgs_def
        segment_defs sublist2_append sublist2_Cons del: sublist_append)
  have u: \<open>sublist ''-U'' (buildSsmsMinCommandArgs p) \<longleftrightarrow> useAad p \<noteq> Some True\<close>
    using assms
    by (simp add: values_free_of_flags_def free_of_flags_def buildSsmsMinCommandArgs_def
        segment_defs sublist2_append sublist2_Cons del: sublist_append)
  from g u show ?thesis by blast
qed

text \<open>
  The two examples of C1: action \<^verbatim>\<open>X\<close>, server \<^verbatim>\<open>S\<close> and AAD give \<^verbatim>\<open>-a "X"\<close>,
  \<^verbatim>\<open>-S "S"\<close>, \<^verbatim>\<open>-G\<close> and no \<^verbatim>\<open>-U\<close>; without AAD and with user \<^verbatim>\<open>U\<close> they give
  \<^verbatim>\<open>-U "U"\<close> and no \<^verbatim>\<open>-G\<close>.
\<close>

theorem aad_flag_exclusive_witness:
  \<open>values_free_of_flags aad_params \<and>
   useAad aad_params = Some True \<and>
   sublist ''-a "X"'' (buildSsmsMinCommandArgs aad_params) \<and>
   sublist ''-S "S"'' (buildSsmsMinCommandArgs aad_params) \<and>
   sublist ''-G'' (buildSsmsMinCommandArgs aad_params) \<and>
   \<not> sublist ''-U'' (buildSsmsMinCommandArgs aad_params) \<and>
   values_free_of_flags login_params \<and>
   useAad login_params \<noteq> Some True \<and>
   sublist ''-U "U"'' (buildSsmsMinCommandArgs login_params) \<and>
   \<not> sublist ''-G'' (buildSsmsMinCommandArgs login_params)\<close>
proof -
  have a: \<open>useAad aad_params = Some True\<close> and l: \<open>useAad login_params \<noteq> Some True\<close>
    by (simp_all add: aad_params_def login_params_def)
  have \<open>sublist ''-a "X"'' (buildSsmsMinCommandArgs aad_params)\<close>
    unfolding aad_params_args by (simp add: sublist_code)
  moreover have \<open>sublist ''-S "S"'' (buildSsmsMinCommandArgs aad_params)\<close>
    unfolding aad_params_args by (simp add: sublist_code)
  moreover have \<open>sublist ''-U "U"'' (buildSsmsMinCommandArgs login_params)\<close>
    unfolding login_params_args by (simp add: sublist_code)
  ultimately show ?thesis
    using aad_flag_exclusive [OF aad_params_clean] aad_flag_exclusive [OF login_params_clean]
      aad_params_clean login_params_clean a l
    by blast
qed

text \<open>
  C2 says that no flag appears for a field that is absent, and in particular no \<^verbatim>\<open>-U\<close>
  when there is no user.  The segments of action, server, database and urn test their own
  field; the segment of the user tests \<^verbatim>\<open>useAad\<close> only, so a parameter object with the two
  required fields and nothing else yields \<^verbatim>\<open>-U "undefined"\<close>.
\<close>

theorem user_flag_without_user:
  \<open>user bare_params = None \<and>
   buildSsmsMinCommandArgs bare_params = ''-a "X"    -S "S"          -U "undefined"          ''\<close>
  by (simp add: bare_params_def buildSsmsMinCommandArgs_def segment_defs
      truthy_string_def truthy_opt_string_def to_string_def)

section \<open>Launching the dialog\<close>

lemma launchParams_action: "action (launchParams connectionProfile urn') = serverPropertiesAction"
  by (simp add: launchParams_def serverPropertiesAction_def)

lemma args_prefix:
  \<open>prefix (''-a "'' @ serverPropertiesAction @ ''"'')
     (buildSsmsMinCommandArgs (launchParams connectionProfile urn'))\<close>
  by (simp add: buildSsmsMinCommandArgs_def action_segment_def launchParams_def
      serverPropertiesAction_def truthy_string_def)

text \<open>The whole launch, once a path is there.\<close>

lemma launch_with_path:
  assumes "truthy_opt_string exePath"
  shows \<open>launchSsmsDialog exePath a connectionProfile urn' =
     [SendTelemetryEvent (Telemetry ''LaunchSsmsDialog'' [(''action'', TString a)]),
      Exec (''"'' @ to_string exePath @ ''" '' @
              buildSsmsMinCommandArgs (launchParams connectionProfile urn'))
           (launchResult (launchParams connectionProfile urn'))]
     @ (if authenticationType connectionProfile = ''AzureMFA'' then []
        else [StdinEnd (case profilePassword connectionProfile of None \<Rightarrow> '''' | Some pw \<Rightarrow> pw)])\<close>
  using assms
  by (auto simp: launchSsmsDialog_def Let_def launchParams_def truthy_opt_string_def
      truthy_string_def to_string_def split: option.splits)

lemma login_launch_spawns:
  \<open>Exec (''"C:/SsmsMin.exe" '' @ buildSsmsMinCommandArgs (launchParams login_profile None))
      (launchResult (launchParams login_profile None))
     \<in> set (launchSsmsDialog (Some ''C:/SsmsMin.exe'') ''sqla:Other'' login_profile None)\<close>
  by (simp add: launchSsmsDialog_def Let_def truthy_opt_string_def truthy_string_def
      to_string_def)

text \<open>
  C3: whatever the \<^verbatim>\<open>action\<close> argument of \<^verbatim>\<open>launchSsmsDialog\<close> is, the parameter object
  it builds carries the identifier of the server properties action, the command line of
  every process it spawns starts with the quoted path followed by \<^verbatim>\<open>-a\<close> and that
  identifier, and the \<^verbatim>\<open>LaunchSsmsDialogResult\<close> event of that process carries it as its
  action.
\<close>

theorem launch_action_fixed:
  \<open>action (launchParams connectionProfile urn') = serverPropertiesAction \<and>
   (\<forall>cmd cb. Exec cmd cb \<in> set (launchSsmsDialog exePath a connectionProfile urn') \<longrightarrow>
      prefix (''"'' @ to_string exePath @ ''" -a "'' @ serverPropertiesAction @ ''"'') cmd \<and>
      (\<forall>code stderr. cb code stderr =
         Telemetry ''LaunchSsmsDialogResult''
           [(''action'', TString serverPropertiesAction),
            (''returnCode'', TNumber code),
            (''error'', TString stderr)]))\<close>
proof (intro conjI allI impI)
  show "action (launchParams connectionProfile urn') = serverPropertiesAction"
    by (rule launchParams_action)
next
  fix cmd cb
  assume spawned: "Exec cmd cb \<in> set (launchSsmsDialog exePath a connectionProfile urn')"
  then have path: "truthy_opt_string exePath"
    by (auto simp: launchSsmsDialog_def split: if_splits)
  from spawned have cmd: \<open>cmd = ''"'' @ to_string exePath @ ''" '' @
       buildSsmsMinCommandArgs (launchParams connectionProfile urn')\<close>
    and cb: "cb = launchResult (launchParams connectionProfile urn')"
    unfolding launch_with_path [OF path] by (auto split: if_splits)
  from args_prefix [of connectionProfile urn']
  show \<open>prefix (''"'' @ to_string exePath @ ''" -a "'' @ serverPropertiesAction @ ''"'') cmd\<close>
    unfolding cmd by simp
  fix code stderr
  show "cb code stderr =
         Telemetry ''LaunchSsmsDialogResult''
           [(''action'', TString serverPropertiesAction),
            (''returnCode'', TNumber code),
            (''error'', TString stderr)]"
    unfolding cb by (simp add: launchResult_def launchParams_action)
qed

text \<open>A launch asked for with another action: the process and its result event carry the fixed one.\<close>

theorem launch_action_fixed_witness:
  \<open>Exec (''"C:/SsmsMin.exe" '' @ buildSsmsMinCommandArgs (launchParams login_profile None))
      (launchResult (launchParams login_profile None))
     \<in> set (launchSsmsDialog (Some ''C:/SsmsMin.exe'') ''sqla:Other'' login_profile None) \<and>
   prefix (''"C:/SsmsMin.exe" -a "'' @ serverPropertiesAction @ ''"'')
     (''"C:/SsmsMin.exe" '' @ buildSsmsMinCommandArgs (launchParams login_profile None)) \<and>
   launchResult (launchParams login_profile None) 1 ''failed'' =
     Telemetry ''LaunchSsmsDialogResult''
       [(''action'', TString serverPropertiesAction),
        (''returnCode'', TNumber 1),
        (''error'', TString ''failed'')]\<close>
proof -
  note fixed = launch_action_fixed [of login_profile None "Some ''C:/SsmsMin.exe''" "''sqla:Other''",
      THEN conjunct2, rule_format, OF login_launch_spawns]
  from fixed [THEN conjunct1]
  have \<open>prefix (''"C:/SsmsMin.exe" -a "'' @ serverPropertiesAction @ ''"'')
     (''"C:/SsmsMin.exe" '' @ buildSsmsMinCommandArgs (launchParams login_profile None))\<close>
    by (simp add: to_string_def)
  with login_launch_spawns fixed [THEN conjunct2, rule_format, of 1 "''failed''"]
  show ?thesis by blast
qed

text \<open>
  C4: while the cached path is unset, \<^verbatim>\<open>launchSsmsDialog\<close> shows the error notification and
  does nothing else: no process, no telemetry event.  A process is spawned only when a
  cached path exists.
\<close>

theorem launch_without_exe_path:
  \<open>launchSsmsDialog None a connectionProfile urn' =
     [ShowErrorMessage ''adminToolExtWin.noExeError'' ''Unable to find SsmsMin.exe.''] \<and>
   (\<forall>cmd cb. Exec cmd cb \<in> set (launchSsmsDialog exePath a connectionProfile urn') \<longrightarrow>
      exePath \<noteq> None)\<close>
  by (auto simp: launchSsmsDialog_def truthy_opt_string_def split: if_splits option.splits)

text \<open>The same launch without and with a cached path.\<close>

theorem launch_without_exe_path_witness:
  \<open>launchSsmsDialog None ''sqla:Other'' login_profile None =
     [ShowErrorMessage ''adminToolExtWin.noExeError'' ''Unable to find SsmsMin.exe.''] \<and>
   Exec (''"C:/SsmsMin.exe" '' @ buildSsmsMinCommandArgs (launchParams login_profile None))
      (launchResult (launchParams login_profile None))
     \<in> set (launchSsmsDialog (Some ''C:/SsmsMin.exe'') ''sqla:Other'' login_profile None) \<and>
   Some ''C:/SsmsMin.exe'' \<noteq> None\<close>
  using launch_without_exe_path [of "''sqla:Other''" login_profile None "Some ''C:/SsmsMin.exe''"]
    login_launch_spawns
  by blast

text \<open>
  C5: in a launch with \<^verbatim>\<open>useAad\<close> true nothing is written to the input stream of the
  process; in a launch with \<^verbatim>\<open>useAad\<close> not true the last thing done, after the process is
  spawned, is to write the password (the empty string when there is none) to the stream and
  close it, and nothing else is written.
\<close>

theorem stdin_only_without_aad:
  assumes "truthy_opt_string exePath"
  shows \<open>(useAad (launchParams connectionProfile urn') = Some True \<longrightarrow>
            (\<forall>d. StdinEnd d \<notin> set (launchSsmsDialog exePath a connectionProfile urn'))) \<and>
         (useAad (launchParams connectionProfile urn') \<noteq> Some True \<longrightarrow>
            (\<exists>before. launchSsmsDialog exePath a connectionProfile urn' =
                 before @ [StdinEnd (case password (launchParams connectionProfile urn') of
                                      None \<Rightarrow> '''' | Some pw \<Rightarrow> pw)] \<and>
               (\<forall>d. StdinEnd d \<notin> set before) \<and>
               (\<exists>cmd cb. Exec cmd cb \<in> set before)))\<close>
  unfolding launch_with_path [OF assms]
  by (simp add: launchParams_def)

text \<open>A launch with Azure MFA and a launch with a SQL login and the password \<^verbatim>\<open>pw\<close>.\<close>

theorem stdin_only_without_aad_witness:
  \<open>truthy_opt_string (Some ''C:/SsmsMin.exe'') \<and>
   useAad (launchParams aad_profile None) = Some True \<and>
   (\<forall>d. StdinEnd d \<notin> set (launchSsmsDialog (Some ''C:/SsmsMin.exe'') ''sqla:Other'' aad_profile None)) \<and>
   useAad (launchParams login_profile None) \<noteq> Some True \<and>
   (\<exists>before. launchSsmsDialog (Some ''C:/SsmsMin.exe'') ''sqla:Other'' login_profile None =
        before @ [StdinEnd ''pw''] \<and>
      (\<forall>d. StdinEnd d \<notin> set before) \<and>
      (\<exists>cmd cb. Exec cmd cb \<in> set before))\<close>
proof -
  have path: \<open>truthy_opt_string (Some ''C:/SsmsMin.exe'')\<close>
    by (simp add: truthy_opt_string_def truthy_string_def)
  have aad: \<open>useAad (launchParams aad_profile None) = Some True\<close>
    by (simp add: launchParams_def aad_profile_def)
  have login: \<open>useAad (launchParams login_profile None) \<noteq> Some True\<close>
    by (simp add: launchParams_def login_profile_def)
  have pw: \<open>(case password (launchParams login_profile None) of None \<Rightarrow> '''' | Some pw \<Rightarrow> pw) = ''pw''\<close>
    by (simp add: launchParams_def login_profile_def)
  from stdin_only_without_aad [OF path, of aad_profile None "''sqla:Other''"] aad
  have \<open>\<forall>d. StdinEnd d \<notin> set (launchSsmsDialog (Some ''C:/SsmsMin.exe'') ''sqla:Other'' aad_profile None)\<close>
    by blast
  moreover from stdin_only_without_aad [OF path, of login_profile None "''sqla:Other''"] login
  have \<open>\<exists>before. launchSsmsDialog (Some ''C:/SsmsMin.exe'') ''sqla:Other'' login_profile None =
        before @ [StdinEnd ''pw''] \<and>
      (\<forall>d. StdinEnd d \<notin> set before) \<and>
      (\<exists>cmd cb. Exec cmd cb \<in> set before)\<close>
    unfolding pw by blast
  ultimately show ?thesis using path aad login by blast
qed

section \<open>Activation\<close>

text \<open>
  C6: on the matching platform, when the promise of \<^verbatim>\<open>getOrDownloadServer\<close> is rejected,
  \<^verbatim>\<open>activate\<close> sends the event \<^verbatim>\<open>startup/ExtensionInitializationFailed\<close>, the promise it
  returns is resolved, and no error message is shown.
\<close>

theorem activation_download_failure:
  assumes "platform env = ''win32''"
    and "getOrDownloadServer env (downloadConfig env) = Rejected"
  shows "SendTelemetryEvent (Telemetry ''startup/ExtensionInitializationFailed'' [])
           \<in> set (effects (activate env exePath)) \<and>
         returned (activate env exePath) = Some Resolved \<and>
         (\<forall>key message. ShowErrorMessage key message \<notin> set (effects (activate env exePath)))"
  using assms by (simp add: activate_def Let_def)

text \<open>An activation on Windows whose download fails.\<close>

theorem activation_download_failure_witness:
  "platform failing_download = ''win32'' \<and>
   getOrDownloadServer failing_download (downloadConfig failing_download) = Rejected \<and>
   SendTelemetryEvent (Telemetry ''startup/ExtensionInitializationFailed'' [])
     \<in> set (effects (activate failing_download None)) \<and>
   returned (activate failing_download None) = Some Resolved \<and>
   (\<forall>key message. ShowErrorMessage key message \<notin> set (effects (activate failing_download None)))"
proof -
  have p: "platform failing_download = ''win32''"
    and d: "getOrDownloadServer failing_download (downloadConfig failing_download) = Rejected"
    by (simp_all add: failing_download_def)
  from activation_download_failure [OF p d, of None] p d show ?thesis by blast
qed

text \<open>
  C10: whatever the setting \<^verbatim>\<open>http.proxyStrictSSL\<close> holds, the field \<^verbatim>\<open>strictSSL\<close> of the
  download configuration is truthy; a falsy setting is replaced by \<^verbatim>\<open>true\<close>.
\<close>

theorem strict_ssl_always_truthy:
  "truthy (strictSSL (downloadConfig env)) \<and>
   (\<not> truthy (httpProxyStrictSSL env) \<longrightarrow> strictSSL (downloadConfig env) = JBoolean True)"
  by (simp add: downloadConfig_def Let_def js_or_def)

text \<open>The setting \<^verbatim>\<open>false\<close> gives \<^verbatim>\<open>true\<close>.\<close>

theorem strict_ssl_always_truthy_witness:
  "httpProxyStrictSSL failing_download = JBoolean False \<and>
   \<not> truthy (httpProxyStrictSSL failing_download) \<and>
   truthy (strictSSL (downloadConfig failing_download)) \<and>
   strictSSL (downloadConfig failing_download) = JBoolean True"
proof -
  have f: "httpProxyStrictSSL failing_download = JBoolean False"
    by (simp add: failing_download_def)
  then have "\<not> truthy (httpProxyStrictSSL failing_download)" by simp
  with strict_ssl_always_truthy [of failing_download] f show ?thesis by blast
qed

section \<open>The formatter picker\<close>

text \<open>The entries carry their positions.\<close>

lemma picksOf_nth:
  "i < length provider \<Longrightarrow> index (picksOf provider ! i) = i"
  by (simp add: picksOf_def nth_enumerate_eq)

lemma picksOf_index: "e \<in> set (picksOf provider) \<Longrightarrow> index e < length provider"
  by (auto simp: picksOf_def in_set_enumerate_eq)

lemma picksOf_at_index:
  "e \<in> set (picksOf provider) \<Longrightarrow> at_index provider (index e) = Some (provider ! index e)"
  by (simp add: at_index_def picksOf_index)

text \<open>A run whose quick pick is cancelled.\<close>

lemma document_run_cancelled:
  assumes "model editor = Some m"
  shows "trace (FormatDocumentMultipleAction_run editor None formatting) =
     [QuickPick (picksOf (documentFormatters m)) (''format.placeHolder'', ''Select a formatter'')
        (onDidTriggerItemButton (documentFormatters m)),
      PublicLog ''formatterpick''
        \<lparr> mode = ''document'', extensions = map extKey (documentFormatters m), pick = ''none'' \<rparr>]"
  using assms by (simp add: FormatDocumentMultipleAction_run_def Let_def logFormatterTelemetry_def)

lemma selection_run_cancelled:
  assumes "model editor = Some m" and "targetRange m (selection editor) = Inr r"
  shows "trace (FormatSelectionMultipleAction_run editor None formatting) =
     [QuickPick (picksOf (rangeFormatters m)) (''format.placeHolder'', ''Select a formatter'')
        (onDidTriggerItemButton (rangeFormatters m)),
      PublicLog ''formatterpick''
        \<lparr> mode = ''range'', extensions = map extKey (rangeFormatters m), pick = ''none'' \<rparr>]"
  using assms by (simp add: FormatSelectionMultipleAction_run_def Let_def logFormatterTelemetry_def)

text \<open>A run that reaches the quick pick has a model and, for a selection, a target range.\<close>

lemma document_run_asked:
  assumes "QuickPick ps ph h \<in> set (trace (FormatDocumentMultipleAction_run editor picked formatting))"
  shows "\<exists>m. model editor = Some m"
  using assms by (cases "model editor") (auto simp: FormatDocumentMultipleAction_run_def)

lemma selection_run_asked:
  assumes "QuickPick ps ph h \<in> set (trace (FormatSelectionMultipleAction_run editor picked formatting))"
  shows "\<exists>m r. model editor = Some m \<and> targetRange m (selection editor) = Inr r"
  using assms
  by (cases "model editor") (auto simp: FormatSelectionMultipleAction_run_def split: sum.splits)

text \<open>The formatting invocations of a run in which an entry is picked.\<close>

lemma document_run_formats:
  assumes "model editor = Some m"
  shows "FormatDocumentWithProvider p
           \<in> set (trace (FormatDocumentMultipleAction_run editor (Some e) formatting))
         \<longleftrightarrow> p = at_index (documentFormatters m) (index e)"
  using assms
  by (cases formatting)
     (auto simp: FormatDocumentMultipleAction_run_def Let_def logFormatterTelemetry_def)

lemma selection_run_formats:
  assumes "model editor = Some m" and "targetRange m (selection editor) = Inr r"
  shows "FormatDocumentRangeWithProvider p r'
           \<in> set (trace (FormatSelectionMultipleAction_run editor (Some e) formatting))
         \<longleftrightarrow> p = at_index (rangeFormatters m) (index e) \<and> r' = r"
  using assms
  by (cases formatting)
     (auto simp: FormatSelectionMultipleAction_run_def Let_def logFormatterTelemetry_def)

lemma cursor_target: "targetRange two_formatters (selection cursor_editor) =
    Inr \<lparr> startLineNumber = 2, startColumn = 1, endLineNumber = 2, endColumn = 6 \<rparr>"
  by (simp add: targetRange_def cursor_editor_def two_formatters_def isEmpty_def getLineMaxColumn_def)

lemma cursor_model: "model cursor_editor = Some two_formatters"
  by (simp add: cursor_editor_def)

lemma first_pick_offered: "first_pick \<in> set (picksOf (documentFormatters two_formatters))"
  by (simp add: first_pick_def picksOf_def two_formatters_def enumerate_eq_zip
      truthy_opt_string_def truthy_string_def to_string_def upt_rec)

lemma second_pick_offered: "second_pick \<in> set (picksOf (rangeFormatters two_formatters))"
  by (simp add: second_pick_def picksOf_def two_formatters_def enumerate_eq_zip
      truthy_opt_string_def truthy_string_def to_string_def upt_rec)

text \<open>
  C7: a run of either picker command whose quick pick resolves with no selection does two
  things, the quick pick and one \<^verbatim>\<open>formatterpick\<close> event with \<^verbatim>\<open>pick\<close> equal to \<^verbatim>\<open>none\<close>;
  it invokes no formatter.
\<close>

theorem cancelled_pick_logs_none:
  "((\<exists>ps ph h. QuickPick ps ph h
        \<in> set (trace (FormatDocumentMultipleAction_run editor None formatting))) \<longrightarrow>
      (\<exists>ps ph h logged.
         trace (FormatDocumentMultipleAction_run editor None formatting) =
           [QuickPick ps ph h, PublicLog ''formatterpick'' logged] \<and> pick logged = ''none'')) \<and>
   ((\<exists>ps ph h. QuickPick ps ph h
        \<in> set (trace (FormatSelectionMultipleAction_run editor None formatting))) \<longrightarrow>
      (\<exists>ps ph h logged.
         trace (FormatSelectionMultipleAction_run editor None formatting) =
           [QuickPick ps ph h, PublicLog ''formatterpick'' logged] \<and> pick logged = ''none''))"
proof (intro conjI impI)
  assume "\<exists>ps ph h. QuickPick ps ph h
        \<in> set (trace (FormatDocumentMultipleAction_run editor None formatting))"
  then obtain m where "model editor = Some m"
    using document_run_asked by blast
  from document_run_cancelled [OF this, of formatting]
  show "\<exists>ps ph h logged.
         trace (FormatDocumentMultipleAction_run editor None formatting) =
           [QuickPick ps ph h, PublicLog ''formatterpick'' logged] \<and> pick logged = ''none''"
    by simp
next
  assume "\<exists>ps ph h. QuickPick ps ph h
        \<in> set (trace (FormatSelectionMultipleAction_run editor None formatting))"
  then obtain m r where "model editor = Some m" "targetRange m (selection editor) = Inr r"
    using selection_run_asked by blast
  from selection_run_cancelled [OF this, of formatting]
  show "\<exists>ps ph h logged.
         trace (FormatSelectionMultipleAction_run editor None formatting) =
           [QuickPick ps ph h, PublicLog ''formatterpick'' logged] \<and> pick logged = ''none''"
    by simp
qed

text \<open>Both commands, cancelled, on an editor with two formatters.\<close>

theorem cancelled_pick_logs_none_witness:
  "(\<exists>ps ph h. QuickPick ps ph h
        \<in> set (trace (FormatDocumentMultipleAction_run cursor_editor None (Fulfilled ())))) \<and>
   (\<exists>ps ph h logged.
         trace (FormatDocumentMultipleAction_run cursor_editor None (Fulfilled ())) =
           [QuickPick ps ph h, PublicLog ''formatterpick'' logged] \<and> pick logged = ''none'') \<and>
   (\<exists>ps ph h. QuickPick ps ph h
        \<in> set (trace (FormatSelectionMultipleAction_run cursor_editor None (Fulfilled ())))) \<and>
   (\<exists>ps ph h logged.
         trace (FormatSelectionMultipleAction_run cursor_editor None (Fulfilled ())) =
           [QuickPick ps ph h, PublicLog ''formatterpick'' logged] \<and> pick logged = ''none'')"
proof -
  have d: "\<exists>ps ph h. QuickPick ps ph h
        \<in> set (trace (FormatDocumentMultipleAction_run cursor_editor None (Fulfilled ())))"
    unfolding document_run_cancelled [OF cursor_model] by simp
  have s: "\<exists>ps ph h. QuickPick ps ph h
        \<in> set (trace (FormatSelectionMultipleAction_run cursor_editor None (Fulfilled ())))"
    unfolding selection_run_cancelled [OF cursor_model cursor_target] by simp
  from cancelled_pick_logs_none [of cursor_editor "Fulfilled ()"] d s
  show ?thesis by blast
qed

text \<open>
  C8: the entry at position \<open>i\<close> of the quick pick carries the index \<open>i\<close>, and when the
  entry the quick pick resolves with is one of the entries offered, the run invokes the
  formatting with the provider at the position of that entry's index in the list the
  entries were made from, and with no other provider; so for both commands.
\<close>

theorem pick_formats_with_indexed_provider:
  assumes "model editor = Some m"
  shows "(\<forall>i < length (documentFormatters m). index (picksOf (documentFormatters m) ! i) = i) \<and>
         (\<forall>i < length (rangeFormatters m). index (picksOf (rangeFormatters m) ! i) = i) \<and>
         (e \<in> set (picksOf (documentFormatters m)) \<longrightarrow>
            index e < length (documentFormatters m) \<and>
            (\<forall>p. FormatDocumentWithProvider p
                    \<in> set (trace (FormatDocumentMultipleAction_run editor (Some e) formatting))
                  \<longleftrightarrow> p = Some (documentFormatters m ! index e))) \<and>
         (e \<in> set (picksOf (rangeFormatters m)) \<and> targetRange m (selection editor) = Inr r \<longrightarrow>
            index e < length (rangeFormatters m) \<and>
            (\<forall>p r'. FormatDocumentRangeWithProvider p r'
                    \<in> set (trace (FormatSelectionMultipleAction_run editor (Some e) formatting))
                  \<longleftrightarrow> p = Some (rangeFormatters m ! index e) \<and> r' = r))"
proof (intro conjI impI allI)
  fix i assume "i < length (documentFormatters m)"
  then show "index (picksOf (documentFormatters m) ! i) = i" by (rule picksOf_nth)
next
  fix i assume "i < length (rangeFormatters m)"
  then show "index (picksOf (rangeFormatters m) ! i) = i" by (rule picksOf_nth)
next
  assume "e \<in> set (picksOf (documentFormatters m))"
  then show "index e < length (documentFormatters m)" by (rule picksOf_index)
next
  fix p
  assume "e \<in> set (picksOf (documentFormatters m))"
  then show "FormatDocumentWithProvider p
                    \<in> set (trace (FormatDocumentMultipleAction_run editor (Some e) formatting))
                  \<longleftrightarrow> p = Some (documentFormatters m ! index e)"
    by (simp add: document_run_formats [OF assms] picksOf_at_index)
next
  assume "e \<in> set (picksOf (rangeFormatters m)) \<and> targetRange m (selection editor) = Inr r"
  then show "index e < length (rangeFormatters m)" by (simp add: picksOf_index)
next
  fix p r'
  assume "e \<in> set (picksOf (rangeFormatters m)) \<and> targetRange m (selection editor) = Inr r"
  then show "FormatDocumentRangeWithProvider p r'
                    \<in> set (trace (FormatSelectionMultipleAction_run editor (Some e) formatting))
                  \<longleftrightarrow> p = Some (rangeFormatters m ! index e) \<and> r' = r"
    by (simp add: selection_run_formats [OF assms] picksOf_at_index)
qed

text \<open>
  Picking the first of two document formatters, and the second of two range formatters
  with the cursor in the second line.
\<close>

theorem pick_formats_with_indexed_provider_witness:
  "model cursor_editor = Some two_formatters \<and>
   (1::nat) < length (documentFormatters two_formatters) \<and>
   index (picksOf (documentFormatters two_formatters) ! 1) = 1 \<and>
   (1::nat) < length (rangeFormatters two_formatters) \<and>
   index (picksOf (rangeFormatters two_formatters) ! 1) = 1 \<and>
   first_pick \<in> set (picksOf (documentFormatters two_formatters)) \<and>
   index first_pick = 0 \<and>
   FormatDocumentWithProvider (Some (documentFormatters two_formatters ! 0))
     \<in> set (trace (FormatDocumentMultipleAction_run cursor_editor (Some first_pick) (Fulfilled ()))) \<and>
   second_pick \<in> set (picksOf (rangeFormatters two_formatters)) \<and>
   targetRange two_formatters (selection cursor_editor) =
     Inr \<lparr> startLineNumber = 2, startColumn = 1, endLineNumber = 2, endColumn = 6 \<rparr> \<and>
   index second_pick = 1 \<and>
   FormatDocumentRangeWithProvider (Some (rangeFormatters two_formatters ! 1))
       \<lparr> startLineNumber = 2, startColumn = 1, endLineNumber = 2, endColumn = 6 \<rparr>
     \<in> set (trace (FormatSelectionMultipleAction_run cursor_editor (Some second_pick) (Fulfilled ())))"
proof -
  have i0: "index first_pick = 0" and i1: "index second_pick = 1"
    by (simp_all add: first_pick_def second_pick_def)
  have l1: "(1::nat) < length (documentFormatters two_formatters)"
    and l2: "(1::nat) < length (rangeFormatters two_formatters)"
    by (simp_all add: two_formatters_def)
  note all = pick_formats_with_indexed_provider [OF cursor_model]
  note doc = all [of first_pick "Fulfilled ()",
      THEN conjunct2, THEN conjunct2, THEN conjunct1, rule_format, OF first_pick_offered]
  note sel = all [of second_pick "Fulfilled ()"
        "\<lparr> startLineNumber = 2, startColumn = 1, endLineNumber = 2, endColumn = 6 \<rparr>",
      THEN conjunct2, THEN conjunct2, THEN conjunct2, rule_format,
      OF conjI [OF second_pick_offered cursor_target]]
  from all [of first_pick "Fulfilled ()", THEN conjunct1, rule_format, OF l1]
  have "index (picksOf (documentFormatters two_formatters) ! 1) = 1" .
  moreover from all [of first_pick "Fulfilled ()", THEN conjunct2, THEN conjunct1, rule_format, OF l2]
  have "index (picksOf (rangeFormatters two_formatters) ! 1) = 1" .
  moreover from doc have "FormatDocumentWithProvider (Some (documentFormatters two_formatters ! 0))
     \<in> set (trace (FormatDocumentMultipleAction_run cursor_editor (Some first_pick) (Fulfilled ())))"
    unfolding i0 by blast
  moreover from sel have "FormatDocumentRangeWithProvider (Some (rangeFormatters two_formatters ! 1))
       \<lparr> startLineNumber = 2, startColumn = 1, endLineNumber = 2, endColumn = 6 \<rparr>
     \<in> set (trace (FormatSelectionMultipleAction_run cursor_editor (Some second_pick) (Fulfilled ())))"
    unfolding i1 by blast
  ultimately show ?thesis
    using cursor_model i0 i1 l1 l2 first_pick_offered second_pick_offered cursor_target by blast
qed

text \<open>
  C9: in a run of the format selection command in which an entry is picked, when the
  selection is empty at line \<open>L\<close> and line \<open>L\<close> has length \<open>n\<close>, the one range formatting
  invocation gets the range from \<open>(L, 1)\<close> to \<open>(L, n + 1)\<close>; when the selection is not empty,
  it gets the selection.
\<close>

theorem empty_selection_widens_to_line:
  assumes "model editor = Some m"
  shows "(isEmpty (selection editor) \<and> startLineNumber (selection editor) = L \<and>
          1 \<le> L \<and> L \<le> length (textLines m) \<and> length (textLines m ! (L - 1)) = n \<longrightarrow>
            (\<forall>p r. FormatDocumentRangeWithProvider p r
                      \<in> set (trace (FormatSelectionMultipleAction_run editor (Some e) formatting))
                    \<longleftrightarrow> p = at_index (rangeFormatters m) (index e) \<and>
                        r = \<lparr> startLineNumber = L, startColumn = 1,
                              endLineNumber = L, endColumn = n + 1 \<rparr>)) \<and>
         (\<not> isEmpty (selection editor) \<longrightarrow>
            (\<forall>p r. FormatDocumentRangeWithProvider p r
                      \<in> set (trace (FormatSelectionMultipleAction_run editor (Some e) formatting))
                    \<longleftrightarrow> p = at_index (rangeFormatters m) (index e) \<and> r = selection editor))"
proof (intro conjI impI)
  assume line: "isEmpty (selection editor) \<and> startLineNumber (selection editor) = L \<and>
          1 \<le> L \<and> L \<le> length (textLines m) \<and> length (textLines m ! (L - 1)) = n"
  then have "targetRange m (selection editor) =
      Inr \<lparr> startLineNumber = L, startColumn = 1, endLineNumber = L, endColumn = n + 1 \<rparr>"
    by (simp add: targetRange_def getLineMaxColumn_def)
  from selection_run_formats [OF assms this]
  show "\<forall>p r. FormatDocumentRangeWithProvider p r
                      \<in> set (trace (FormatSelectionMultipleAction_run editor (Some e) formatting))
                    \<longleftrightarrow> p = at_index (rangeFormatters m) (index e) \<and>
                        r = \<lparr> startLineNumber = L, startColumn = 1,
                              endLineNumber = L, endColumn = n + 1 \<rparr>"
    by blast
next
  assume "\<not> isEmpty (selection editor)"
  then have "targetRange m (selection editor) = Inr (selection editor)"
    by (simp add: targetRange_def)
  from selection_run_formats [OF assms this]
  show "\<forall>p r. FormatDocumentRangeWithProvider p r
                      \<in> set (trace (FormatSelectionMultipleAction_run editor (Some e) formatting))
                    \<longleftrightarrow> p = at_index (rangeFormatters m) (index e) \<and> r = selection editor"
    by blast
qed

text \<open>
  The cursor in the second line, \<^verbatim>\<open>hello\<close>, gives the range from \<open>(2, 1)\<close> to \<open>(2, 6)\<close>; a
  selection over two lines is passed as it is.
\<close>

theorem empty_selection_widens_to_line_witness:
  "model cursor_editor = Some two_formatters \<and>
   isEmpty (selection cursor_editor) \<and> startLineNumber (selection cursor_editor) = 2 \<and>
   (1::nat) \<le> 2 \<and> 2 \<le> length (textLines two_formatters) \<and>
   length (textLines two_formatters ! (2 - 1)) = 5 \<and>
   FormatDocumentRangeWithProvider (at_index (rangeFormatters two_formatters) (index second_pick))
       \<lparr> startLineNumber = 2, startColumn = 1, endLineNumber = 2, endColumn = 5 + 1 \<rparr>
     \<in> set (trace (FormatSelectionMultipleAction_run cursor_editor (Some second_pick) (Fulfilled ()))) \<and>
   model selection_editor = Some two_formatters \<and>
   \<not> isEmpty (selection selection_editor) \<and>
   FormatDocumentRangeWithProvider (at_index (rangeFormatters two_formatters) (index second_pick))
       \<lparr> startLineNumber = 1, startColumn = 2, endLineNumber = 2, endColumn = 4 \<rparr>
     \<in> set (trace (FormatSelectionMultipleAction_run selection_editor (Some second_pick) (Fulfilled ())))"
proof -
  have ms: "model selection_editor = Some two_formatters"
    by (simp add: selection_editor_def)
  have line: "isEmpty (selection cursor_editor) \<and> startLineNumber (selection cursor_editor) = 2 \<and>
      (1::nat) \<le> 2 \<and> 2 \<le> length (textLines two_formatters) \<and>
      length (textLines two_formatters ! (2 - 1)) = 5"
    by (simp add: cursor_editor_def two_formatters_def isEmpty_def)
  have wide: "\<not> isEmpty (selection selection_editor)"
    and sel: "selection selection_editor =
      \<lparr> startLineNumber = 1, startColumn = 2, endLineNumber = 2, endColumn = 4 \<rparr>"
    by (simp_all add: selection_editor_def isEmpty_def)
  from empty_selection_widens_to_line [OF cursor_model, of 2 5 second_pick "Fulfilled ()",
      THEN conjunct1, rule_format, OF line]
  have "FormatDocumentRangeWithProvider (at_index (rangeFormatters two_formatters) (index second_pick))
       \<lparr> startLineNumber = 2, startColumn = 1, endLineNumber = 2, endColumn = 5 + 1 \<rparr>
     \<in> set (trace (FormatSelectionMultipleAction_run cursor_editor (Some second_pick) (Fulfilled ())))"
    by blast
  moreover
  from empty_selection_widens_to_line [OF ms, of 0 0 second_pick "Fulfilled ()",
      THEN conjunct2, rule_format, OF wide]
  have "FormatDocumentRangeWithProvider (at_index (rangeFormatters two_formatters) (index second_pick))
       \<lparr> startLineNumber = 1, startColumn = 2, endLineNumber = 2, endColumn = 4 \<rparr>
     \<in> set (trace (FormatSelectionMultipleAction_run selection_editor (Some second_pick) (Fulfilled ())))"
    unfolding sel by blast
  ultimately show ?thesis using cursor_model ms line wide by blast
qed

end
